theory Spec2Isabelle
  imports Main "HOL-Library.AList"
begin

section \<open>Data model of \<^verbatim>\<open>room_manager.py\<close>\<close>

text \<open>
  Python dictionaries keep insertion order and unique keys. They are association lists
  here: \<open>AList.update\<close> overwrites in place or appends (as \<^verbatim>\<open>d[k] = v\<close> does),
  \<open>AList.delete\<close> is \<^verbatim>\<open>d.pop(k, None)\<close> and \<open>map_of\<close> is \<^verbatim>\<open>d.get(k)\<close>.
  A Python set of connections is a list without repetitions: \<open>List.insert\<close> is
  \<^verbatim>\<open>s.add\<close>, \<open>removeAll\<close> is \<^verbatim>\<open>s.discard\<close>. Connections (websocket objects) are
  values of an arbitrary type \<open>'ws\<close>.

  The fields \<^verbatim>\<open>id\<close> and \<^verbatim>\<open>name\<close> of both dataclasses are prefixed with the class,
  since \<open>id\<close> is a constant of HOL and the two records share a theory.
\<close>

record User =
  user_id :: string
  user_name :: string
  color :: string
  is_host :: bool
  joined_at :: string

record Room =
  room_id :: string
  room_name :: string
  host_id :: string
  language :: string
  code :: string
  created_at :: string
  max_users :: int
  is_public :: bool
  users :: "(string \<times> User) list"

text \<open>The result of \<^verbatim>\<open>Room.to_dict\<close>; \<^verbatim>\<open>User.to_dict\<close> is \<^verbatim>\<open>asdict\<close>, the record itself.\<close>

record RoomDict =
  d_id :: string
  d_name :: string
  d_host_id :: string
  d_language :: string
  d_code :: string
  d_created_at :: string
  d_max_users :: int
  d_is_public :: bool
  d_users :: "User list"
  d_user_count :: nat

definition to_dict :: "Room \<Rightarrow> RoomDict" where
  "to_dict room =
     \<lparr>d_id = room_id room, d_name = room_name room, d_host_id = host_id room,
      d_language = language room, d_code = code room, d_created_at = created_at room,
      d_max_users = max_users room, d_is_public = is_public room,
      d_users = map snd (users room), d_user_count = length (users room)\<rparr>"

record 'ws RoomManager =
  rooms :: "(string \<times> Room) list"
  connections :: "(string \<times> 'ws list) list"
  user_rooms :: "(string \<times> string) list"
  ws_users :: "('ws \<times> string) list"
  color_index :: nat

text \<open>\<^verbatim>\<open>RoomManager.__init__\<close>\<close>

definition init :: "'ws RoomManager" where
  "init = \<lparr>rooms = [], connections = [], user_rooms = [], ws_users = [], color_index = 0\<rparr>"

definition user_colors :: "string list" where
  "user_colors =
     [''#FF6B6B'', ''#4ECDC4'', ''#45B7D1'', ''#FFA07A'',
      ''#98D8C8'', ''#F7DC6F'', ''#BB8FCE'', ''#85C1E2'',
      ''#F8B739'', ''#52B788'', ''#E76F51'', ''#2A9D8F'']"

definition get_user_color :: "'ws RoomManager \<Rightarrow> string \<times> 'ws RoomManager" where
  "get_user_color st =
     (user_colors ! (color_index st mod length user_colors),
      st\<lparr>color_index := color_index st + 1\<rparr>)"

section \<open>Operations of \<^verbatim>\<open>RoomManager\<close>\<close>

text \<open>
  The random draws of \<^verbatim>\<open>uuid.uuid4()\<close> and the clock readings of
  \<^verbatim>\<open>datetime.utcnow()\<close> are inputs of the operations that make them: \<open>new_rid\<close>,
  \<open>new_uid\<close> are the identifiers drawn, \<open>t_user\<close> and \<open>t_room\<close> the timestamps read.
  Every operation returns its result together with the manager's new state.
\<close>

definition create_room ::
  "'ws RoomManager \<Rightarrow> string \<Rightarrow> string \<Rightarrow> string \<Rightarrow> string \<Rightarrow>
   string \<Rightarrow> string \<Rightarrow> string \<Rightarrow> string \<Rightarrow> int \<Rightarrow> bool \<Rightarrow> Room \<times> 'ws RoomManager" where
  "create_room st new_rid new_uid t_user t_room name hname lang src maxu pub =
     (let (col, st1) = get_user_color st;
          host = \<lparr>user_id = new_uid, user_name = hname, color = col, is_host = True,
                  joined_at = t_user\<rparr>;
          room = \<lparr>room_id = new_rid, room_name = name, host_id = new_uid, language = lang,
                  code = src, created_at = t_room, max_users = maxu, is_public = pub,
                  users = [(new_uid, host)]\<rparr>
      in (room, st1\<lparr>rooms := AList.update new_rid room (rooms st1)\<rparr>))"

definition get_room :: "'ws RoomManager \<Rightarrow> string \<Rightarrow> Room option" where
  "get_room st rid = map_of (rooms st) rid"

definition delete_room :: "'ws RoomManager \<Rightarrow> string \<Rightarrow> bool \<times> 'ws RoomManager" where
  "delete_room st rid =
     (case map_of (rooms st) rid of
        Some room \<Rightarrow>
          (True,
           st\<lparr>user_rooms := fold AList.delete (map fst (users room)) (user_rooms st),
              connections := AList.delete rid (connections st),
              rooms := AList.delete rid (rooms st)\<rparr>)
      | None \<Rightarrow> (False, st))"

text \<open>\<^verbatim>\<open>self.connections\<close> is a \<^verbatim>\<open>defaultdict(set)\<close>: indexing a missing key stores an
  empty set under it first.\<close>

definition conn_add :: "(string \<times> 'ws list) list \<Rightarrow> string \<Rightarrow> 'ws \<Rightarrow> (string \<times> 'ws list) list" where
  "conn_add cs rid ws =
     AList.update rid (List.insert ws (case map_of cs rid of None \<Rightarrow> [] | Some s \<Rightarrow> s)) cs"

definition conn_discard :: "(string \<times> 'ws list) list \<Rightarrow> string \<Rightarrow> 'ws \<Rightarrow> (string \<times> 'ws list) list" where
  "conn_discard cs rid ws =
     AList.update rid (removeAll ws (case map_of cs rid of None \<Rightarrow> [] | Some s \<Rightarrow> s)) cs"

text \<open>
  The test \<^verbatim>\<open>if existing_user_id and existing_user_id in room.users\<close> of
  \<^verbatim>\<open>join_room\<close>, with the user \<^verbatim>\<open>room.users[existing_user_id]\<close> it selects. A
  string is true in Python when it is not empty.
\<close>

definition existing_user :: "'ws RoomManager \<Rightarrow> Room \<Rightarrow> 'ws \<Rightarrow> User option" where
  "existing_user st room ws =
     (case map_of (ws_users st) ws of
        None \<Rightarrow> None
      | Some existing_user_id \<Rightarrow>
          if existing_user_id \<noteq> [] then map_of (users room) existing_user_id else None)"

text \<open>The loop of \<^verbatim>\<open>join_room\<close> that looks for a host with the joining name: the first
  match in the order of \<^verbatim>\<open>room.users.values()\<close>.\<close>

definition find_host :: "Room \<Rightarrow> string \<Rightarrow> User option" where
  "find_host room uname = find (\<lambda>u. user_name u = uname \<and> is_host u) (map snd (users room))"

definition join_room ::
  "'ws RoomManager \<Rightarrow> string \<Rightarrow> string \<Rightarrow> string \<Rightarrow> string \<Rightarrow> 'ws \<Rightarrow>
   User option \<times> 'ws RoomManager" where
  "join_room st new_uid t_user rid uname ws =
     (case get_room st rid of
        None \<Rightarrow> (None, st)
      | Some room \<Rightarrow>
          if int (length (users room)) \<ge> max_users room then (None, st)
          else
            (case existing_user st room ws of
               Some user \<Rightarrow> (Some user, st\<lparr>connections := conn_add (connections st) rid ws\<rparr>)
             | None \<Rightarrow>
                 (case find_host room uname of
                    Some user \<Rightarrow>
                      (Some user,
                       st\<lparr>connections := conn_add (connections st) rid ws,
                          ws_users := AList.update ws (user_id user) (ws_users st),
                          user_rooms :=
                            (if map_of (user_rooms st) (user_id user) = None
                             then AList.update (user_id user) rid (user_rooms st)
                             else user_rooms st)\<rparr>)
                  | None \<Rightarrow>
                      let (col, st1) = get_user_color st;
                          user = \<lparr>user_id = new_uid, user_name = uname, color = col,
                                  is_host = False, joined_at = t_user\<rparr>;
                          room' = room\<lparr>users := AList.update new_uid user (users room)\<rparr>
                      in (Some user,
                          st1\<lparr>rooms := AList.update rid room' (rooms st1),
                              user_rooms := AList.update new_uid rid (user_rooms st1),
                              connections := conn_add (connections st1) rid ws,
                              ws_users := AList.update ws new_uid (ws_users st1)\<rparr>))))"

text \<open>\<^verbatim>\<open>leave_room\<close> returns \<^verbatim>\<open>None\<close> or the pair \<^verbatim>\<open>(room_id, user)\<close>, whose second
  component is what \<^verbatim>\<open>room.users.pop(user_id, None)\<close> gave. The tests
  \<^verbatim>\<open>if not user_id\<close> and \<^verbatim>\<open>if not room_id\<close> also hold of an empty string.\<close>

definition leave_room ::
  "'ws RoomManager \<Rightarrow> 'ws \<Rightarrow> (string \<times> User option) option \<times> 'ws RoomManager" where
  "leave_room st ws =
     (case map_of (ws_users st) ws of
        None \<Rightarrow> (None, st)
      | Some uid \<Rightarrow>
          if uid = [] then (None, st)
          else
            (case map_of (user_rooms st) uid of
               None \<Rightarrow> (None, st)
             | Some rid \<Rightarrow>
                 if rid = [] then (None, st)
                 else
                   (case get_room st rid of
                      None \<Rightarrow> (None, st)
                    | Some room \<Rightarrow>
                        let user = map_of (users room) uid;
                            room' = room\<lparr>users := AList.delete uid (users room)\<rparr>;
                            st1 = st\<lparr>rooms := AList.update rid room' (rooms st),
                                     user_rooms := AList.delete uid (user_rooms st),
                                     connections := conn_discard (connections st) rid ws,
                                     ws_users := AList.delete ws (ws_users st)\<rparr>;
                            st2 = (if length (users room') = 0 then snd (delete_room st1 rid)
                                   else st1)
                        in (Some (rid, user), st2))))"

definition update_code :: "'ws RoomManager \<Rightarrow> string \<Rightarrow> string \<Rightarrow> bool \<times> 'ws RoomManager" where
  "update_code st rid src =
     (case get_room st rid of
        Some room \<Rightarrow> (True, st\<lparr>rooms := AList.update rid (room\<lparr>code := src\<rparr>) (rooms st)\<rparr>)
      | None \<Rightarrow> (False, st))"

definition update_language :: "'ws RoomManager \<Rightarrow> string \<Rightarrow> string \<Rightarrow> bool \<times> 'ws RoomManager" where
  "update_language st rid lang =
     (case get_room st rid of
        Some room \<Rightarrow> (True, st\<lparr>rooms := AList.update rid (room\<lparr>language := lang\<rparr>) (rooms st)\<rparr>)
      | None \<Rightarrow> (False, st))"

definition get_connections :: "'ws RoomManager \<Rightarrow> string \<Rightarrow> 'ws list" where
  "get_connections st rid = (case map_of (connections st) rid of None \<Rightarrow> [] | Some s \<Rightarrow> s)"

text \<open>
  \<^verbatim>\<open>broadcast_to_room\<close>: \<open>send_fails ws\<close> tells whether \<^verbatim>\<open>ws.send_json(message)\<close>
  raises. The result lists the connections a send was attempted on, those it failed on
  (the set \<^verbatim>\<open>disconnected\<close>), and the state after \<^verbatim>\<open>leave_room\<close> has run on each
  of the latter. Python leaves the order in which a set is iterated open; the model
  iterates in the order of the list that stands for the set.
\<close>

definition broadcast_to_room ::
  "'ws RoomManager \<Rightarrow> string \<Rightarrow> 'ws option \<Rightarrow> ('ws \<Rightarrow> bool) \<Rightarrow>
   'ws list \<times> 'ws list \<times> 'ws RoomManager" where
  "broadcast_to_room st rid exclude_ws send_fails =
     (let attempted = filter (\<lambda>ws. Some ws \<noteq> exclude_ws) (get_connections st rid);
          disconnected = filter send_fails attempted
      in (attempted, disconnected, fold (\<lambda>ws s. snd (leave_room s ws)) disconnected st))"

section \<open>The REST endpoints of \<^verbatim>\<open>main.py\<close>\<close>

text \<open>
  \<^verbatim>\<open>CreateRoomRequest\<close> is the request body of \<^verbatim>\<open>POST /rooms/create\<close>; its
  \<^verbatim>\<open>Field\<close> constraints are \<^verbatim>\<open>min_length=1\<close> on both names and
  \<^verbatim>\<open>ge=2, le=50\<close> on \<^verbatim>\<open>max_users\<close>. A body that violates them is answered with a
  validation error and the endpoint's function is not entered.
\<close>

record CreateRoomRequest =
  req_name :: string
  req_host_name :: string
  req_language :: string
  req_code :: string
  req_max_users :: int
  req_is_public :: bool

definition valid_request :: "CreateRoomRequest \<Rightarrow> bool" where
  "valid_request req =
     (length (req_name req) \<ge> 1 \<and> length (req_host_name req) \<ge> 1 \<and>
      2 \<le> req_max_users req \<and> req_max_users req \<le> 50)"

datatype http_error = ValidationError | NotFound | Forbidden | ServerError

definition create_room_endpoint ::
  "'ws RoomManager \<Rightarrow> string \<Rightarrow> string \<Rightarrow> string \<Rightarrow> string \<Rightarrow> CreateRoomRequest \<Rightarrow>
   (http_error + RoomDict) \<times> 'ws RoomManager" where
  "create_room_endpoint st new_rid new_uid t_user t_room req =
     (if \<not> valid_request req then (Inl ValidationError, st)
      else
        let (room, st') =
              create_room st new_rid new_uid t_user t_room (req_name req) (req_host_name req)
                (req_language req) (req_code req) (req_max_users req) (req_is_public req)
        in (Inr (to_dict room), st'))"

text \<open>\<^verbatim>\<open>DELETE /rooms/{room_id}\<close>: 404 when the room is absent, 403 when it has users,
  otherwise \<^verbatim>\<open>delete_room\<close> and the message, or 500 when that returns false.\<close>

definition delete_room_endpoint ::
  "'ws RoomManager \<Rightarrow> string \<Rightarrow> (http_error + string) \<times> 'ws RoomManager" where
  "delete_room_endpoint st rid =
     (case get_room st rid of
        None \<Rightarrow> (Inl NotFound, st)
      | Some room \<Rightarrow>
          if length (users room) > 0 then (Inl Forbidden, st)
          else
            let (success, st') = delete_room st rid
            in if success then (Inr ''Room deleted'', st') else (Inl ServerError, st'))"

section \<open>Reachable states\<close>

text \<open>
  A call of a public method of the manager, with the draws it makes. A broadcast carries
  the list of connections whose send fails. The states the manager can be in are those
  \<open>exec init cs\<close> that a sequence \<open>cs\<close> of calls leads to from the initial state; the
  two REST endpoints change the state through \<open>create_room\<close> and \<open>delete_room\<close> only.
  The methods other than \<^verbatim>\<open>broadcast_to_room\<close> contain no \<^verbatim>\<open>await\<close>, so each runs
  to its end before another handler does; the sends of a broadcast change no state, and
  the calls of \<^verbatim>\<open>leave_room\<close> that follow them are steps like any other.
\<close>

datatype 'ws call =
    Create_room string string string string string string string string int bool
  | Delete_room string
  | Join_room string string string string 'ws
  | Leave_room 'ws
  | Update_code string string
  | Update_language string string
  | Broadcast_to_room string "'ws option" "'ws list"

fun step :: "'ws RoomManager \<Rightarrow> 'ws call \<Rightarrow> 'ws RoomManager" where
  "step st (Create_room new_rid new_uid t_user t_room name hname lang src maxu pub) =
     snd (create_room st new_rid new_uid t_user t_room name hname lang src maxu pub)"
| "step st (Delete_room rid) = snd (delete_room st rid)"
| "step st (Join_room new_uid t_user rid uname ws) =
     snd (join_room st new_uid t_user rid uname ws)"
| "step st (Leave_room ws) = snd (leave_room st ws)"
| "step st (Update_code rid src) = snd (update_code st rid src)"
| "step st (Update_language rid lang) = snd (update_language st rid lang)"
| "step st (Broadcast_to_room rid exclude_ws failing) =
     snd (snd (broadcast_to_room st rid exclude_ws (\<lambda>ws. ws \<in> set failing)))"

definition exec :: "'ws RoomManager \<Rightarrow> 'ws call list \<Rightarrow> 'ws RoomManager" where
  "exec st cs = foldl step st cs"


section \<open>Invariant and sample runs\<close>

text \<open>Every stored room has a user.\<close>

definition nonempty_rooms :: "(string \<times> Room) list \<Rightarrow> bool" where
  "nonempty_rooms rs = list_all (\<lambda>p. users (snd p) \<noteq> []) rs"

text \<open>
  Sample runs, with connections numbered: a room of capacity 2 that the host's creation
  and Bob's join fill; a room that its host alone has joined; two rooms, the first joined
  by connection 1; and a room that its host joined from connections 1 and 2 and Bob from
  connection 3, after which connection 1 left.
\<close>

definition full_room_calls :: "nat call list" where
  "full_room_calls =
     [Create_room ''r1'' ''h1'' ''t0'' ''t0'' ''demo'' ''Alice'' ''Python'' '''' 2 True,
      Join_room ''u2'' ''t1'' ''r1'' ''Bob'' 1]"

definition host_only_calls :: "nat call list" where
  "host_only_calls =
     [Create_room ''r1'' ''h1'' ''t0'' ''t0'' ''demo'' ''Alice'' ''Python'' '''' 10 True,
      Join_room ''u1'' ''t1'' ''r1'' ''Alice'' 1]"

definition two_rooms_calls :: "nat call list" where
  "two_rooms_calls =
     [Create_room ''r1'' ''h1'' ''t0'' ''t0'' ''demo'' ''Alice'' ''Python'' '''' 10 True,
      Create_room ''r2'' ''h2'' ''t1'' ''t1'' ''other'' ''Bob'' ''Python'' '''' 10 True,
      Join_room ''u3'' ''t2'' ''r1'' ''Carol'' 1]"

definition stale_host_calls :: "nat call list" where
  "stale_host_calls =
     [Create_room ''r1'' ''h1'' ''t0'' ''t0'' ''demo'' ''Alice'' ''Python'' '''' 10 True,
      Join_room ''u1'' ''t1'' ''r1'' ''Alice'' 1,
      Join_room ''u2'' ''t2'' ''r1'' ''Alice'' 2,
      Join_room ''u3'' ''t3'' ''r1'' ''Bob'' 3,
      Leave_room 1]"

definition alice :: User where
  "alice = \<lparr>user_id = ''h1'', user_name = ''Alice'', color = ''#FF6B6B'', is_host = True,
            joined_at = ''t0''\<rparr>"

definition demo_room :: Room where
  "demo_room = \<lparr>room_id = ''r1'', room_name = ''demo'', host_id = ''h1'',
                language = ''Python'', code = '''', created_at = ''t0'', max_users = 10,
                is_public = True, users = [(''h1'', alice)]\<rparr>"

section \<open>Evaluation and the invariant\<close>

lemmas eval_defs = exec_def create_room_def join_room_def leave_room_def delete_room_def
  get_room_def get_user_color_def user_colors_def init_def conn_add_def conn_discard_def
  existing_user_def find_host_def get_connections_def broadcast_to_room_def Let_def
  update_code_def update_language_def

lemma set_alist_update: "set (AList.update k v al) \<subseteq> insert (k, v) (set al)"
  by (induction al) auto

lemma set_alist_delete: "set (AList.delete k al) \<subseteq> set al"
  by (auto simp: AList.delete_eq)

lemma nonempty_rooms_lookup:
  "nonempty_rooms rs \<Longrightarrow> map_of rs rid = Some room \<Longrightarrow> users room \<noteq> []"
  unfolding nonempty_rooms_def list_all_iff
  by (auto dest!: map_of_SomeD)

lemma nonempty_rooms_update:
  "nonempty_rooms rs \<Longrightarrow> users room \<noteq> [] \<Longrightarrow> nonempty_rooms (AList.update rid room rs)"
  unfolding nonempty_rooms_def list_all_iff
  using set_alist_update [of rid room rs] by auto

lemma nonempty_rooms_delete:
  "nonempty_rooms rs \<Longrightarrow> nonempty_rooms (AList.delete rid rs)"
  unfolding nonempty_rooms_def list_all_iff
  using set_alist_delete [of rid rs] by auto

lemma create_room_nonempty:
  "nonempty_rooms (rooms st) \<Longrightarrow>
   nonempty_rooms (rooms (snd (create_room st new_rid new_uid t_user t_room name hname lang src maxu pub)))"
  by (simp add: create_room_def get_user_color_def Let_def nonempty_rooms_update)

lemma delete_room_nonempty:
  "nonempty_rooms (rooms st) \<Longrightarrow> nonempty_rooms (rooms (snd (delete_room st rid)))"
  by (simp add: delete_room_def nonempty_rooms_delete split: option.splits)

lemma join_room_nonempty:
  "nonempty_rooms (rooms st) \<Longrightarrow>
   nonempty_rooms (rooms (snd (join_room st new_uid t_user rid uname ws)))"
  by (simp add: join_room_def get_user_color_def Let_def nonempty_rooms_update split: option.splits)

lemma leave_room_nonempty:
  "nonempty_rooms (rooms st) \<Longrightarrow> nonempty_rooms (rooms (snd (leave_room st ws)))"
  by (simp add: leave_room_def delete_room_def Let_def AList.update_conv'
      AList.delete_update_same nonempty_rooms_delete nonempty_rooms_update split: option.splits)

lemma update_code_nonempty:
  "nonempty_rooms (rooms st) \<Longrightarrow> nonempty_rooms (rooms (snd (update_code st rid src)))"
  by (auto simp: update_code_def get_room_def split: option.splits
      dest: nonempty_rooms_lookup intro!: nonempty_rooms_update)

lemma update_language_nonempty:
  "nonempty_rooms (rooms st) \<Longrightarrow> nonempty_rooms (rooms (snd (update_language st rid lang)))"
  by (auto simp: update_language_def get_room_def split: option.splits
      dest: nonempty_rooms_lookup intro!: nonempty_rooms_update)

lemma fold_leave_nonempty:
  "nonempty_rooms (rooms st) \<Longrightarrow>
   nonempty_rooms (rooms (fold (\<lambda>ws s. snd (leave_room s ws)) wss st))"
  by (induction wss arbitrary: st) (simp_all add: leave_room_nonempty)

lemma broadcast_nonempty:
  "nonempty_rooms (rooms st) \<Longrightarrow>
   nonempty_rooms (rooms (snd (snd (broadcast_to_room st rid ex f))))"
  by (simp add: broadcast_to_room_def Let_def fold_leave_nonempty)

lemma step_nonempty: "nonempty_rooms (rooms st) \<Longrightarrow> nonempty_rooms (rooms (step st c))"
  by (cases c)
     (simp_all add: create_room_nonempty delete_room_nonempty join_room_nonempty
        leave_room_nonempty update_code_nonempty update_language_nonempty broadcast_nonempty)

lemma exec_nonempty: "nonempty_rooms (rooms st) \<Longrightarrow> nonempty_rooms (rooms (exec st cs))"
  unfolding exec_def by (induction cs arbitrary: st) (simp_all add: step_nonempty)

lemma reachable_nonempty: "nonempty_rooms (rooms (exec init cs))"
  by (rule exec_nonempty) (simp add: nonempty_rooms_def init_def)

lemma leave_room_no_user: "map_of (ws_users st) ws = None \<Longrightarrow> leave_room st ws = (None, st)"
  by (simp add: leave_room_def)

lemma leave_room_detaches:
  "leave_room st ws = (Some res, st') \<Longrightarrow> map_of (ws_users st') ws = None"
  by (auto simp: leave_room_def delete_room_def Let_def AList.delete_conv'
      split: option.splits if_splits)



lemma join_single_host:
  assumes "get_room st rid = Some room" and "users room = [(uid, host)]"
    and "is_host host" and "user_name host = uname" and "1 < max_users room"
  shows "fst (join_room st new_uid t_user rid uname ws) = Some host \<and>
         rooms (snd (join_room st new_uid t_user rid uname ws)) = rooms st"
  using assms
  by (auto simp: join_room_def existing_user_def find_host_def split: option.splits if_splits)

lemma get_connections_conn_add:
  "(case map_of (conn_add cs rid ws) rid' of None \<Rightarrow> [] | Some s \<Rightarrow> s) =
   (if rid' = rid then List.insert ws (case map_of cs rid of None \<Rightarrow> [] | Some s \<Rightarrow> s)
    else (case map_of cs rid' of None \<Rightarrow> [] | Some s \<Rightarrow> s))"
  by (simp add: conn_add_def AList.update_conv')

lemma join_room_connections:
  assumes "join_room st new_uid t_user rid uname ws = (Some u, st')"
  shows "connections st' = conn_add (connections st) rid ws"
  using assms
  by (auto simp: join_room_def get_user_color_def Let_def split: option.splits if_splits)

section \<open>Claims\<close>

text \<open>
  Claim C1, as amended. The capacity test of \<open>join_room\<close> comes before the reconnect and
  the host re-join resolution: in a room at full capacity every join returns absent and
  changes nothing, whatever the connection and the name. Below capacity a connection
  already associated with a member gets that member back, and otherwise a join under the
  name of a host of the room gets that host; neither changes the rooms.
\<close>

theorem join_room_capacity_first:
  assumes "get_room st rid = Some room"
  shows "(max_users room \<le> int (length (users room)) \<longrightarrow>
            join_room st new_uid t_user rid uname ws = (None, st)) \<and>
         (int (length (users room)) < max_users room \<longrightarrow>
            (\<forall>u. existing_user st room ws = Some u \<longrightarrow>
               fst (join_room st new_uid t_user rid uname ws) = Some u \<and>
               rooms (snd (join_room st new_uid t_user rid uname ws)) = rooms st) \<and>
            (\<forall>h. existing_user st room ws = None \<and> find_host room uname = Some h \<longrightarrow>
               fst (join_room st new_uid t_user rid uname ws) = Some h \<and>
               rooms (snd (join_room st new_uid t_user rid uname ws)) = rooms st))"
  using assms by (simp add: join_room_def)

theorem join_room_capacity_first_witness:
  "join_room (exec init full_room_calls) ''u3'' ''t2'' ''r1'' ''Alice'' 2
     = (None, exec init full_room_calls) \<and>
   fst (join_room (exec init host_only_calls) ''u3'' ''t2'' ''r1'' ''Alice'' 2) = Some alice \<and>
   fst (join_room (exec init host_only_calls) ''u3'' ''t2'' ''r1'' ''Bob'' 1) = Some alice"
  using
    join_room_capacity_first [of "exec init full_room_calls" "''r1''"
      "the (get_room (exec init full_room_calls) ''r1'')" "''u3''" "''t2''" "''Alice''" 2]
    join_room_capacity_first [of "exec init host_only_calls" "''r1''" demo_room
      "''u3''" "''t2''" "''Alice''" 2]
    join_room_capacity_first [of "exec init host_only_calls" "''r1''" demo_room
      "''u3''" "''t2''" "''Bob''" 1]
  by (simp add: eval_defs full_room_calls_def host_only_calls_def demo_room_def alice_def)

text \<open>
  Claim C1 as stated fails: the room \<open>r1\<close> of capacity 2 holds the host Alice and Bob,
  whose connection is 1. Bob's connection joining again and a second connection joining
  under the host's name both get absent.
\<close>

theorem join_full_room_counterexample:
  "map_option (map fst \<circ> users) (get_room (exec init full_room_calls) ''r1'') = Some [''h1'', ''u2''] \<and>
   map_option (map (user_name \<circ> snd) \<circ> users) (get_room (exec init full_room_calls) ''r1'')
     = Some [''Alice'', ''Bob''] \<and>
   map_option (map (is_host \<circ> snd) \<circ> users) (get_room (exec init full_room_calls) ''r1'')
     = Some [True, False] \<and>
   map_option max_users (get_room (exec init full_room_calls) ''r1'') = Some 2 \<and>
   map_of (ws_users (exec init full_room_calls)) 1 = Some ''u2'' \<and>
   join_room (exec init full_room_calls) ''u3'' ''t2'' ''r1'' ''Bob'' 1
     = (None, exec init full_room_calls) \<and>
   join_room (exec init full_room_calls) ''u3'' ''t2'' ''r1'' ''Alice'' 2
     = (None, exec init full_room_calls)"
  by (simp add: eval_defs full_room_calls_def)



text \<open>
  Claim C3, as amended. A successful join of a connection to a room adds the connection
  to that room's connection set and leaves the connection set of every other room as it
  was: the connection is not taken out of a room it was attached to before.
\<close>

theorem join_room_adds_connection_only:
  assumes "join_room st new_uid t_user rid uname ws = (Some u, st')"
  shows "set (get_connections st' rid) = insert ws (set (get_connections st rid)) \<and>
         (\<forall>rid'. rid' \<noteq> rid \<longrightarrow> get_connections st' rid' = get_connections st rid')"
  using join_room_connections [OF assms]
  by (simp add: get_connections_def get_connections_conn_add)

theorem join_room_adds_connection_only_witness:
  "set (get_connections (snd (join_room (exec init two_rooms_calls) ''u4'' ''t3'' ''r2''
          ''Dave'' 1)) ''r2'') = {1} \<and>
   get_connections (snd (join_room (exec init two_rooms_calls) ''u4'' ''t3'' ''r2''
          ''Dave'' 1)) ''r1'' = get_connections (exec init two_rooms_calls) ''r1''"
  using join_room_adds_connection_only [of "exec init two_rooms_calls" "''u4''" "''t3''"
      "''r2''" "''Dave''" 1
      "the (fst (join_room (exec init two_rooms_calls) ''u4'' ''t3'' ''r2'' ''Dave'' 1))"
      "snd (join_room (exec init two_rooms_calls) ''u4'' ''t3'' ''r2'' ''Dave'' 1)"]
  by (simp add: eval_defs two_rooms_calls_def)

text \<open>
  Claim C3 as stated fails: connection 1 is attached to room \<open>r1\<close>, joins room \<open>r2\<close>
  successfully, and is then in the connection sets of both rooms.
\<close>

theorem join_second_room_counterexample:
  "get_connections (exec init two_rooms_calls) ''r1'' = [1] \<and>
   map_option user_name (fst (join_room (exec init two_rooms_calls) ''u4'' ''t3'' ''r2'' ''Dave'' 1))
     = Some ''Dave'' \<and>
   get_connections (snd (join_room (exec init two_rooms_calls) ''u4'' ''t3'' ''r2'' ''Dave'' 1)) ''r1''
     = [1] \<and>
   get_connections (snd (join_room (exec init two_rooms_calls) ''u4'' ''t3'' ''r2'' ''Dave'' 1)) ''r2''
     = [1]"
  by (simp add: eval_defs two_rooms_calls_def)

text \<open>
  Claim C4. For \<open>max_users\<close> between 2 and 50, \<open>create_room\<close> returns a room that is
  stored under its id and has exactly one user; that user is a host, the room's
  \<open>host_id\<close> is that user's id, and the snapshot's \<open>user_count\<close> is 1.
\<close>

theorem create_room_single_host:
  assumes "2 \<le> maxu" and "maxu \<le> 50"
    and "create_room st new_rid new_uid t_user t_room name hname lang src maxu pub = (room, st')"
  shows "(\<exists>host. users room = [(user_id host, host)] \<and> is_host host \<and>
            host_id room = user_id host \<and> d_users (to_dict room) = [host]) \<and>
         length (users room) = 1 \<and> d_user_count (to_dict room) = 1 \<and>
         get_room st' (room_id room) = Some room"
  using assms(3)
  by (auto simp: create_room_def get_user_color_def Let_def to_dict_def get_room_def
      AList.update_conv')

theorem create_room_single_host_witness:
  "(\<exists>host. users (fst (create_room (init :: nat RoomManager) ''r1'' ''h1'' ''t'' ''t''
              ''demo'' ''Alice'' ''Python'' [] 2 True)) = [(user_id host, host)] \<and> is_host host)
   \<and> d_user_count (to_dict (fst (create_room (init :: nat RoomManager) ''r1'' ''h1'' ''t'' ''t''
              ''demo'' ''Alice'' ''Python'' [] 2 True))) = 1"
  using create_room_single_host [of 2 "init :: nat RoomManager" "''r1''" "''h1''" "''t''" "''t''"
      "''demo''" "''Alice''" "''Python''" "[]" True
      "fst (create_room (init :: nat RoomManager) ''r1'' ''h1'' ''t'' ''t''
              ''demo'' ''Alice'' ''Python'' [] 2 True)"
      "snd (create_room (init :: nat RoomManager) ''r1'' ''h1'' ''t'' ''t''
              ''demo'' ''Alice'' ''Python'' [] 2 True)"]
  by auto

text \<open>
  Claim C5. In a room below capacity whose only user is a host named \<open>uname\<close>, two joins
  in sequence under that name, from any two connections, both return that host user, and
  the room, with its single user and every field of that user, is the same after each.
\<close>

theorem host_join_twice_same_user:
  assumes "get_room st rid = Some room" and "users room = [(uid, host)]"
    and "is_host host" and "user_name host = uname" and "1 < max_users room"
  shows "\<exists>st1 st2.
           join_room st new_uid1 t1 rid uname ws1 = (Some host, st1) \<and>
           join_room st1 new_uid2 t2 rid uname ws2 = (Some host, st2) \<and>
           get_room st1 rid = Some room \<and> get_room st2 rid = Some room \<and>
           length (users room) = 1"
proof -
  let ?j1 = "join_room st new_uid1 t1 rid uname ws1"
  let ?j2 = "join_room (snd ?j1) new_uid2 t2 rid uname ws2"
  have j1: "fst ?j1 = Some host" "rooms (snd ?j1) = rooms st"
    using join_single_host [OF assms] by simp_all
  then have r1: "get_room (snd ?j1) rid = Some room"
    using assms(1) by (simp add: get_room_def)
  have j2: "fst ?j2 = Some host" "rooms (snd ?j2) = rooms (snd ?j1)"
    using join_single_host [OF r1 assms(2-5)] by simp_all
  then have r2: "get_room (snd ?j2) rid = Some room"
    using r1 by (simp add: get_room_def)
  have "?j1 = (Some host, snd ?j1)" "?j2 = (Some host, snd ?j2)"
    using j1(1) j2(1) by (simp_all add: prod_eq_iff)
  with r1 r2 assms(2) show ?thesis by auto
qed

theorem host_join_twice_same_user_witness:
  "fst (join_room (exec init host_only_calls) ''u5'' ''t5'' ''r1'' ''Alice'' 2) = Some alice \<and>
   fst (join_room (snd (join_room (exec init host_only_calls) ''u5'' ''t5'' ''r1'' ''Alice'' 2))
          ''u6'' ''t6'' ''r1'' ''Alice'' 3) = Some alice \<and>
   get_room (snd (join_room (snd (join_room (exec init host_only_calls) ''u5'' ''t5'' ''r1''
          ''Alice'' 2)) ''u6'' ''t6'' ''r1'' ''Alice'' 3)) ''r1'' = Some demo_room"
  using host_join_twice_same_user [of "exec init host_only_calls" "''r1''" demo_room "''h1''"
      alice "''Alice''" "''u5''" "''t5''" 2 "''u6''" "''t6''" 3]
  by (simp add: eval_defs host_only_calls_def demo_room_def alice_def)

text \<open>
  Claim C6. \<open>leave_room\<close> on a connection with no associated user returns absent and
  the state it was given; and after a leave on a connection that returned a room and a
  user, a second leave on that connection returns absent and the state it was given.
\<close>

theorem leave_room_idempotent:
  "(map_of (ws_users st) ws = None \<longrightarrow> leave_room st ws = (None, st)) \<and>
   (leave_room st ws = (Some res, st') \<longrightarrow> leave_room st' ws = (None, st'))"
proof (intro conjI impI)
  assume "map_of (ws_users st) ws = None"
  then show "leave_room st ws = (None, st)" by (rule leave_room_no_user)
next
  assume "leave_room st ws = (Some res, st')"
  then have "map_of (ws_users st') ws = None" by (rule leave_room_detaches)
  then show "leave_room st' ws = (None, st')" by (rule leave_room_no_user)
qed

theorem leave_room_idempotent_witness:
  "leave_room (exec init host_only_calls) 7 = (None, exec init host_only_calls) \<and>
   fst (leave_room (exec init host_only_calls) 1) = Some (''r1'', Some alice) \<and>
   leave_room (snd (leave_room (exec init host_only_calls) 1)) 1
     = (None, snd (leave_room (exec init host_only_calls) 1))"
  using
    leave_room_idempotent [of "exec init host_only_calls" 7 "(''r1'', Some alice)"
      "exec init host_only_calls"]
    leave_room_idempotent [of "exec init host_only_calls" 1 "(''r1'', Some alice)"
      "snd (leave_room (exec init host_only_calls) 1)"]
  by (simp add: eval_defs host_only_calls_def alice_def)

text \<open>
  Claim C7 fails on the code. In the state below the host user was removed when
  connection 1 left, while connection 2, which had joined as the same host, stays in
  the connection set of room \<open>r1\<close>. A broadcast whose send to connection 2 fails passes
  it to \<open>leave_room\<close>, which finds no room for its user and returns absent without
  discarding it: connection 2 is still in the set, and the next broadcast attempts it
  again.
\<close>

theorem broadcast_keeps_failed_connection:
  "get_connections (exec init stale_host_calls) ''r1'' = [3, 2] \<and>
   map_option (map fst \<circ> users) (get_room (exec init stale_host_calls) ''r1'') = Some [''u3''] \<and>
   map_of (ws_users (exec init stale_host_calls)) 2 = Some ''h1'' \<and>
   map_of (user_rooms (exec init stale_host_calls)) ''h1'' = None \<and>
   leave_room (exec init stale_host_calls) 2 = (None, exec init stale_host_calls) \<and>
   broadcast_to_room (exec init stale_host_calls) ''r1'' None ((=) 2)
     = ([3, 2], [2], exec init stale_host_calls)"
  by (simp add: eval_defs stale_host_calls_def)

text \<open>
  Claim C8. A create-room request whose \<open>max_users\<close> is outside 2..50 is answered
  with a validation error and the state is the one before the request; with
  \<open>max_users\<close> inside 2..50 (and both names non-empty) the room is created and stored.
\<close>

theorem create_room_endpoint_validation:
  "(\<not> (2 \<le> req_max_users req \<and> req_max_users req \<le> 50) \<longrightarrow>
      create_room_endpoint st new_rid new_uid t_user t_room req = (Inl ValidationError, st)) \<and>
   (2 \<le> req_max_users req \<and> req_max_users req \<le> 50 \<and>
    req_name req \<noteq> [] \<and> req_host_name req \<noteq> [] \<longrightarrow>
      (\<exists>room st'. create_room_endpoint st new_rid new_uid t_user t_room req =
                    (Inr (to_dict room), st') \<and>
                  get_room st' new_rid = Some room \<and> max_users room = req_max_users req \<and>
                  map fst (users room) = [new_uid] \<and>
                  color_index st' = color_index st + 1))"
  by (auto simp: create_room_endpoint_def valid_request_def create_room_def get_user_color_def
      Let_def get_room_def AList.update_conv' Suc_le_eq)

theorem create_room_endpoint_validation_witness:
  "create_room_endpoint (init :: nat RoomManager) ''r1'' ''h1'' ''t0'' ''t0''
     \<lparr>req_name = ''demo'', req_host_name = ''Alice'', req_language = ''Python'',
      req_code = '''', req_max_users = 51, req_is_public = True\<rparr>
     = (Inl ValidationError, init) \<and>
   get_room (snd (create_room_endpoint (init :: nat RoomManager) ''r1'' ''h1'' ''t0'' ''t0''
     \<lparr>req_name = ''demo'', req_host_name = ''Alice'', req_language = ''Python'',
      req_code = '''', req_max_users = 10, req_is_public = True\<rparr>)) ''r1'' = Some demo_room"
  using
    create_room_endpoint_validation [of
      "\<lparr>req_name = ''demo'', req_host_name = ''Alice'', req_language = ''Python'',
        req_code = '''', req_max_users = 51, req_is_public = True\<rparr>"
      "init :: nat RoomManager" "''r1''" "''h1''" "''t0''" "''t0''"]
    create_room_endpoint_validation [of
      "\<lparr>req_name = ''demo'', req_host_name = ''Alice'', req_language = ''Python'',
        req_code = '''', req_max_users = 10, req_is_public = True\<rparr>"
      "init :: nat RoomManager" "''r1''" "''h1''" "''t0''" "''t0''"]
  by (simp add: eval_defs create_room_endpoint_def valid_request_def demo_room_def alice_def)

text \<open>
  Claim C9. On an absent room \<open>update_code\<close> and \<open>update_language\<close> return false and
  the state they were given. On a stored room they return true; the new state differs
  from the old one in the room registry only, where the room is the old room with its
  code (respectively language) replaced and every other room id maps as before.
\<close>

theorem update_code_language_frame:
  "(get_room st rid = None \<longrightarrow>
      update_code st rid src = (False, st) \<and> update_language st rid lang = (False, st)) \<and>
   (get_room st rid = Some room \<longrightarrow>
      update_code st rid src = (True, st\<lparr>rooms := rooms (snd (update_code st rid src))\<rparr>) \<and>
      get_room (snd (update_code st rid src)) rid = Some (room\<lparr>code := src\<rparr>) \<and>
      (\<forall>rid'. rid' \<noteq> rid \<longrightarrow>
         get_room (snd (update_code st rid src)) rid' = get_room st rid') \<and>
      update_language st rid lang =
        (True, st\<lparr>rooms := rooms (snd (update_language st rid lang))\<rparr>) \<and>
      get_room (snd (update_language st rid lang)) rid = Some (room\<lparr>language := lang\<rparr>) \<and>
      (\<forall>rid'. rid' \<noteq> rid \<longrightarrow>
         get_room (snd (update_language st rid lang)) rid' = get_room st rid'))"
  by (simp add: update_code_def update_language_def get_room_def AList.update_conv')

theorem update_code_language_frame_witness:
  "update_code (exec init host_only_calls) ''zz'' ''x = 1'' = (False, exec init host_only_calls) \<and>
   fst (update_code (exec init host_only_calls) ''r1'' ''x = 1'') \<and>
   get_room (snd (update_code (exec init host_only_calls) ''r1'' ''x = 1'')) ''r1''
     = Some (demo_room\<lparr>code := ''x = 1''\<rparr>) \<and>
   fst (update_language (exec init host_only_calls) ''r1'' ''Rust'') \<and>
   get_room (snd (update_language (exec init host_only_calls) ''r1'' ''Rust'')) ''r1''
     = Some (demo_room\<lparr>language := ''Rust''\<rparr>)"
  using
    update_code_language_frame [of "exec init host_only_calls" "''zz''" "''x = 1''" "''Rust''"
      demo_room]
    update_code_language_frame [of "exec init host_only_calls" "''r1''" "''x = 1''" "''Rust''"
      demo_room]
  by (simp add: eval_defs host_only_calls_def demo_room_def alice_def)

text \<open>
  Claim C10. In every reachable state and for every room id, either the room is absent
  and the delete endpoint answers not-found, or the room has at least one user and the
  endpoint answers forbidden; in both cases the state is unchanged, so the endpoint never
  deletes a room.
\<close>

theorem delete_room_endpoint_never_deletes:
  "(case get_room (exec init cs) rid of
      None \<Rightarrow> delete_room_endpoint (exec init cs) rid = (Inl NotFound, exec init cs)
    | Some room \<Rightarrow>
        1 \<le> length (users room) \<and>
        delete_room_endpoint (exec init cs) rid = (Inl Forbidden, exec init cs))"
  using nonempty_rooms_lookup [OF reachable_nonempty, of cs rid]
  by (auto simp: delete_room_endpoint_def get_room_def Suc_le_eq split: option.splits)

theorem delete_room_endpoint_never_deletes_witness:
  "delete_room_endpoint (exec init host_only_calls) ''r1''
     = (Inl Forbidden, exec init host_only_calls) \<and>
   delete_room_endpoint (exec init host_only_calls) ''zz''
     = (Inl NotFound, exec init host_only_calls)"
  using delete_room_endpoint_never_deletes [of host_only_calls "''r1''"]
    delete_room_endpoint_never_deletes [of host_only_calls "''zz''"]
  by (simp add: eval_defs host_only_calls_def delete_room_endpoint_def)

end
